theory Spec2Isabelle
  imports Main "HOL-Library.Sublist" "HOL-Library.AList"
begin

section \<open>Python strings\<close>

text \<open>
  A Python \<open>str\<close> is modelled as a \<^typ>\<open>string\<close> (a list of characters). That a string
  \<open>p\<close> occurs in a string \<open>s\<close> (Python's \<open>p in s\<close>) is \<^term>\<open>sublist p s\<close>, that \<open>s\<close> ends
  with \<open>p\<close> (\<open>s.endswith(p)\<close>) is \<^term>\<open>suffix p s\<close>.
\<close>

text \<open>
  \<open>s.replace(old, new)\<close> for a non-empty \<open>old\<close>: the string is scanned from the left; where
  \<open>old\<close> starts, \<open>new\<close> is emitted and the scan resumes behind the occurrence, so that the
  occurrences replaced are the leftmost ones that do not overlap.
\<close>

fun replace_scan :: "'a list \<Rightarrow> 'a list \<Rightarrow> 'a list \<Rightarrow> 'a list" where
  "replace_scan old new [] = []"
| "replace_scan old new (c # cs) =
     (if old \<noteq> [] \<and> prefix old (c # cs)
      then new @ replace_scan old new (drop (length old) (c # cs))
      else c # replace_scan old new cs)"

text \<open>
  \<open>str.replace\<close>: with an empty \<open>old\<close>, Python puts \<open>new\<close> before every character and at
  the end.
\<close>

definition str_replace :: "'a list \<Rightarrow> 'a list \<Rightarrow> 'a list \<Rightarrow> 'a list" where
  "str_replace old new s =
     (if old = [] then new @ concat (map (\<lambda>c. c # new) s) else replace_scan old new s)"

text \<open>\<open>sep.join(xs)\<close>.\<close>

fun join :: "'a list \<Rightarrow> 'a list list \<Rightarrow> 'a list" where
  "join sep [] = []"
| "join sep [x] = x"
| "join sep (x # y # ys) = x @ sep @ join sep (y # ys)"


section \<open>Input filters (19\_inputfilters.py)\<close>

definition redaction_note :: string where
  "redaction_note =
     ''\<newline>\<newline>[Note: Some sensitive information has been redacted for security purposes.]''"

definition sanitize_sensitive_info :: "string \<Rightarrow> string" where
  "sanitize_sensitive_info input_text =
     (let sanitized = input_text;
          sanitized = str_replace ''credit card'' ''[PAYMENT METHOD]'' sanitized;
          sanitized = str_replace ''SSN'' ''[REDACTED ID]'' sanitized;
          sanitized = str_replace ''password'' ''[CREDENTIALS]'' sanitized;
          sanitized = str_replace ''account number'' ''[ACCOUNT ID]'' sanitized
      in if sanitized \<noteq> input_text then sanitized @ redaction_note else sanitized)"

text \<open>The value of \<open>sanitized\<close> after the four replacements, before the note is decided.\<close>

definition replaced_text :: "string \<Rightarrow> string" where
  "replaced_text s =
     str_replace ''account number'' ''[ACCOUNT ID]''
       (str_replace ''password'' ''[CREDENTIALS]''
         (str_replace ''SSN'' ''[REDACTED ID]''
           (str_replace ''credit card'' ''[PAYMENT METHOD]'' s)))"

text \<open>One of the four searched-for substrings occurs in the string.\<close>

definition mentions_sensitive :: "string \<Rightarrow> bool" where
  "mentions_sensitive s \<longleftrightarrow>
     sublist ''credit card'' s \<or> sublist ''SSN'' s \<or> sublist ''password'' s
     \<or> sublist ''account number'' s"


section \<open>Numbers, letter case and exceptions\<close>

text \<open>
  \<open>str(n)\<close> for an integer: the decimal digits, with a minus sign for a negative number.
\<close>

fun str_nat :: "nat \<Rightarrow> string" where
  "str_nat n =
     (if n < 10 then [char_of (48 + n)] else str_nat (n div 10) @ [char_of (48 + n mod 10)])"

definition str_int :: "int \<Rightarrow> string" where
  "str_int i = (if i < 0 then ''-'' @ str_nat (nat (- i)) else str_nat (nat i))"

text \<open>
  \<open>str.lower\<close> and \<open>str.capitalize\<close> on the letters A to Z and a to z, which is what Python
  does to the characters below 128; every other character is left as it is.
\<close>

definition lower_char :: "char \<Rightarrow> char" where
  "lower_char c =
     (let n = of_char c :: nat in if 65 \<le> n \<and> n \<le> 90 then char_of (n + 32) else c)"

definition upper_char :: "char \<Rightarrow> char" where
  "upper_char c =
     (let n = of_char c :: nat in if 97 \<le> n \<and> n \<le> 122 then char_of (n - 32) else c)"

definition str_lower :: "string \<Rightarrow> string" where
  "str_lower s = map lower_char s"

fun str_capitalize :: "string \<Rightarrow> string" where
  "str_capitalize [] = []"
| "str_capitalize (c # cs) = upper_char c # map lower_char cs"

text \<open>The exceptions the modelled code can raise, each with its message.\<close>

datatype error = ValueError string | TypeError string | IndexError string


section \<open>Module initialisation of the Gemini scripts\<close>

text \<open>
  Every script of \<open>geminiagents/\<close> starts the same way: after its imports and
  \<open>load_dotenv()\<close> it reads \<open>GEMINI_API_KEY\<close> with \<open>os.getenv\<close> (\<open>None\<close> when the variable is
  not set), raises when the value is falsy, and only then constructs the client, the model
  and the run configuration. The objects are the SDK's; the records keep the arguments the
  scripts pass (the argument \<open>model\<close> of \<open>RunConfig\<close> is the field \<open>run_model\<close>).
\<close>

record AsyncOpenAI =
  api_key :: string
  base_url :: string

record OpenAIChatCompletionsModel =
  model :: string
  openai_client :: AsyncOpenAI

record RunConfig =
  run_model :: OpenAIChatCompletionsModel
  model_provider :: AsyncOpenAI
  tracing_disabled :: bool

datatype sdk_object =
  Client AsyncOpenAI | ChatModel OpenAIChatCompletionsModel | Config RunConfig

text \<open>
  The objects constructed so far, in order, and the exception that ended the module's
  initialisation, if one did.
\<close>

definition gemini_module_init :: "string option \<Rightarrow> sdk_object list \<times> error option" where
  "gemini_module_init gemini_api_key =
     (case gemini_api_key of
        None \<Rightarrow> ([], Some (ValueError
          ''GEMINI_API_KEY is not set. Please ensure it is defined in your .env file.''))
      | Some key \<Rightarrow>
          if key = []
          then ([], Some (ValueError
            ''GEMINI_API_KEY is not set. Please ensure it is defined in your .env file.''))
          else
            (let external_client =
                   \<lparr>api_key = key,
                    base_url = ''https://generativelanguage.googleapis.com/v1beta/openai/''\<rparr>;
                 model = \<lparr>model = ''gemini-2.0-flash'', openai_client = external_client\<rparr>;
                 config = \<lparr>run_model = model, model_provider = external_client,
                           tracing_disabled = True\<rparr>
             in ([Client external_client, ChatModel model, Config config], None)))"


section \<open>Weather tools (03\_basicconfig.py, 26\_basicvoiceagent.py)\<close>

text \<open>\<open>get_weather\<close> of 03\_basicconfig.py.\<close>

definition get_weather :: "string \<Rightarrow> string" where
  "get_weather city = ''The weather in '' @ city @ '' is sunny''"

text \<open>
  \<open>random.choice(seq)\<close>: the element at the index the generator draws below \<open>len(seq)\<close>; the
  draw is the argument \<open>r\<close>, reduced to the range. An empty sequence raises.
\<close>

definition random_choice :: "nat \<Rightarrow> 'a list \<Rightarrow> error + 'a" where
  "random_choice r seq =
     (if seq = [] then Inl (IndexError ''Cannot choose from an empty sequence'')
      else Inr (seq ! (r mod length seq)))"

text \<open>
  \<open>get_weather\<close> of 26\_basicvoiceagent.py: the lines it prints and what it returns, for the
  draw \<open>r\<close> of the random generator.
\<close>

definition get_weather_voice :: "nat \<Rightarrow> string \<Rightarrow> string list \<times> (error + string)" where
  "get_weather_voice r city =
     (let printed = [''[debug] get_weather called with city: '' @ city];
          choices = [''sunny'', ''cloudy'', ''rainy'', ''snowy'']
      in case random_choice r choices of
           Inl e \<Rightarrow> (printed, Inl e)
         | Inr w \<Rightarrow> (printed, Inr (''The weather in '' @ city @ '' is '' @ w @ ''.'')))"


section \<open>Guardrails (23\_guardrails.py, 24\_outputguardrails.py)\<close>

text \<open>
  The output models of the detector agents; the field \<open>reasoning\<close> of each is named after
  its class.
\<close>

record MathHomeworkOutput =
  is_math_homework :: bool
  homework_reasoning :: string

record MathOutput =
  is_math :: bool
  math_reasoning :: string

record MessageOutput =
  response :: string

text \<open>
  The SDK's \<open>GuardrailFunctionOutput\<close>, with the keyword arguments the scripts pass; a
  \<open>tripwire_message\<close> that is not passed is \<open>None\<close>.
\<close>

record 'a GuardrailFunctionOutput =
  output_info :: 'a
  tripwire_triggered :: bool
  tripwire_message :: "string option"

text \<open>The input of an input guardrail: a string, or a list of input items.\<close>

datatype 'item guardrail_input = InputStr string | InputList "'item list"

text \<open>
  \<open>math_homework_guardrail\<close>. The run of the detector agent,
  \<open>Runner.run(math_guardrail_agent, input_str, ...).final_output_as(MathHomeworkOutput)\<close>, is
  the parameter \<open>detect\<close>, and \<open>str\<close> of a list of input items is the parameter \<open>str_items\<close>;
  the arguments \<open>ctx\<close> and \<open>agent\<close> are not used by the function.
\<close>

definition math_homework_guardrail ::
  "('item list \<Rightarrow> string) \<Rightarrow> (string \<Rightarrow> MathHomeworkOutput) \<Rightarrow> 'item guardrail_input
     \<Rightarrow> MathHomeworkOutput GuardrailFunctionOutput" where
  "math_homework_guardrail str_items detect input_data =
     (let input_str = (case input_data of InputStr s \<Rightarrow> s | InputList xs \<Rightarrow> str_items xs);
          output = detect input_str
      in if is_math_homework output
         then \<lparr>output_info = output, tripwire_triggered = True,
               tripwire_message = Some
                 (''I can't provide direct solutions to math homework problems. ''
                  @ homework_reasoning output
                  @ '' Instead, I can explain concepts or guide you through the problem-solving approach without giving the answer.'')\<rparr>
         else \<lparr>output_info = output, tripwire_triggered = False, tripwire_message = None\<rparr>)"

text \<open>
  \<open>math_solution_guardrail\<close>, with the run of the detector agent on \<open>output.response\<close> as the
  parameter \<open>detect\<close>.
\<close>

definition math_solution_guardrail ::
  "(string \<Rightarrow> MathOutput) \<Rightarrow> MessageOutput \<Rightarrow> MathOutput GuardrailFunctionOutput" where
  "math_solution_guardrail detect output =
     (let check_output = detect (response output)
      in if is_math check_output
         then \<lparr>output_info = check_output, tripwire_triggered = True,
               tripwire_message = Some
                 (''I can't provide direct solutions to math problems. ''
                  @ math_reasoning check_output
                  @ '' Instead, I'll provide guidance on the approach without giving the complete answer.'')\<rparr>
         else \<lparr>output_info = check_output, tripwire_triggered = False,
               tripwire_message = None\<rparr>)"


section \<open>Dynamic instructions (07\_basicdynamicinstructions.py)\<close>

record UserContext =
  name :: string
  language :: string
  interests :: "string list"
  experience_level :: string

text \<open>The f-string that \<open>base_instructions\<close> starts as.\<close>

definition base_text :: "UserContext \<Rightarrow> string" where
  "base_text user =
     ''\<newline>    The user's name is '' @ name user
     @ ''. They prefer communication in '' @ language user
     @ ''.\<newline>    Their experience level is: '' @ experience_level user
     @ ''.\<newline>    Their interests include: '' @ join '', '' (interests user)
     @ ''.\<newline>    \<newline>    Tailor your responses to match their experience level and interests.\<newline>    ''"

definition beginner_paragraph :: string where
  "beginner_paragraph =
     ''\<newline>        Use simple explanations and avoid technical jargon.''
     @ ''\<newline>        Provide step-by-step guidance and offer encouragement.\<newline>        ''"

definition intermediate_paragraph :: string where
  "intermediate_paragraph =
     ''\<newline>        You can use some technical terms but explain complex concepts.''
     @ ''\<newline>        Provide more detailed information and some advanced tips.\<newline>        ''"

definition expert_paragraph :: string where
  "expert_paragraph =
     ''\<newline>        You can use technical language freely.''
     @ ''\<newline>        Focus on advanced techniques and in-depth analysis.''
     @ ''\<newline>        Be concise and precise in your explanations.\<newline>        ''"

text \<open>The sentence of the language addendum that names the language, and the addendum.\<close>

definition respond_sentence :: "string \<Rightarrow> string" where
  "respond_sentence lang = ''Respond in '' @ lang @ '' when possible.''"

definition language_addendum :: "string \<Rightarrow> string" where
  "language_addendum lang =
     ''\<newline>        '' @ respond_sentence lang
     @ ''\<newline>        Use simple sentence structures for clarity.\<newline>        ''"

text \<open>
  \<open>dynamic_instructions\<close>; \<open>user\<close> is \<open>context.context\<close>, the argument \<open>agent\<close> is not used.
\<close>

definition dynamic_instructions :: "UserContext \<Rightarrow> string" where
  "dynamic_instructions user =
     (let base_instructions = base_text user;
          base_instructions =
            (if experience_level user = ''beginner''
             then base_instructions @ beginner_paragraph
             else if experience_level user = ''intermediate''
             then base_instructions @ intermediate_paragraph
             else if experience_level user = ''expert''
             then base_instructions @ expert_paragraph
             else base_instructions);
          base_instructions =
            (if language user \<noteq> ''English''
             then base_instructions @ language_addendum (language user)
             else base_instructions)
      in base_instructions)"


section \<open>Local context (22\_localcontext.py)\<close>

text \<open>
  The dataclass \<open>UserInfo\<close>. A dictionary is an association list in insertion order, looked
  up with \<^const>\<open>map_of\<close>; the two fields whose default is \<open>None\<close> are options. The values of
  a purchase record (strings, prices) have the type \<open>'v\<close>, and how an f-string formats one
  is a parameter of the tool that prints them. The field \<open>name\<close> is \<open>user_name\<close> here.
\<close>

record 'v UserInfo =
  user_name :: string
  uid :: int
  email :: "string option"
  subscription_tier :: string
  preferences :: "(string \<times> string) list option"
  purchase_history :: "(string \<times> 'v) list list option"

definition post_init :: "'v UserInfo \<Rightarrow> 'v UserInfo" where
  "post_init self =
     (let self = (if preferences self = None then self\<lparr>preferences := Some []\<rparr> else self);
          self = (if purchase_history self = None then self\<lparr>purchase_history := Some []\<rparr>
                  else self)
      in self)"

text \<open>
  The constructor: the generated \<open>__init__\<close> stores its arguments, an omitted
  \<open>subscription_tier\<close> (here \<open>None\<close>) being \<open>"free"\<close>, and calls \<open>__post_init__\<close>.
\<close>

definition UserInfo_init ::
  "string \<Rightarrow> int \<Rightarrow> string option \<Rightarrow> string option \<Rightarrow> (string \<times> string) list option
     \<Rightarrow> (string \<times> 'v) list list option \<Rightarrow> 'v UserInfo" where
  "UserInfo_init n i e t p h =
     post_init \<lparr>user_name = n, uid = i, email = e,
                subscription_tier = (case t of None \<Rightarrow> ''free'' | Some x \<Rightarrow> x),
                preferences = p, purchase_history = h\<rparr>"

text \<open>
  The tools. Each returns what the Python function returns, and the context object as the
  call leaves it.
\<close>

definition fetch_user_profile :: "'v UserInfo \<Rightarrow> string \<times> 'v UserInfo" where
  "fetch_user_profile user =
     (''\<newline>User Profile:\<newline>- Name: '' @ user_name user
      @ ''\<newline>- User ID: '' @ str_int (uid user)
      @ ''\<newline>- Email: ''
      @ (case email user of None \<Rightarrow> ''Not provided''
         | Some e \<Rightarrow> if e = [] then ''Not provided'' else e)
      @ ''\<newline>- Subscription: '' @ subscription_tier user @ ''\<newline>'',
      user)"

definition fetch_user_preferences :: "'v UserInfo \<Rightarrow> string \<times> 'v UserInfo" where
  "fetch_user_preferences user =
     (case preferences user of
        None \<Rightarrow> (''No preferences have been set for this user.'', user)
      | Some d \<Rightarrow>
          if d = [] then (''No preferences have been set for this user.'', user)
          else
            (let prefs = join ''\<newline>'' (map (\<lambda>(k, v). ''- '' @ k @ '': '' @ v) d)
             in (''User Preferences:\<newline>'' @ prefs, user)))"

text \<open>\<open>p.get(key, default)\<close> as an f-string prints it.\<close>

definition get_formatted ::
  "('v \<Rightarrow> string) \<Rightarrow> (string \<times> 'v) list \<Rightarrow> string \<Rightarrow> string \<Rightarrow> string" where
  "get_formatted fmt p key dflt = (case map_of p key of None \<Rightarrow> dflt | Some v \<Rightarrow> fmt v)"

definition fetch_purchase_history ::
  "('v \<Rightarrow> string) \<Rightarrow> 'v UserInfo \<Rightarrow> string \<times> 'v UserInfo" where
  "fetch_purchase_history fmt user =
     (case purchase_history user of
        None \<Rightarrow> (''No purchase history found for this user.'', user)
      | Some ps \<Rightarrow>
          if ps = [] then (''No purchase history found for this user.'', user)
          else
            (let history = join ''\<newline>''
                   (map (\<lambda>p. ''- '' @ get_formatted fmt p ''item'' ''Unknown item''
                             @ '': $'' @ get_formatted fmt p ''price'' ''0.0''
                             @ '' on '' @ get_formatted fmt p ''date'' ''Unknown date'') ps)
             in (''Purchase History:\<newline>'' @ history, user)))"

definition features :: "(string \<times> string list) list" where
  "features =
     [(''free'',
        [''Basic access to platform'',
         ''Limited storage (5GB)'',
         ''Standard support'',
         ''Access to community forums'']),
      (''basic'',
        [''Full access to platform'',
         ''Increased storage (50GB)'',
         ''Priority email support'',
         ''No advertisements'',
         ''Monthly newsletter'']),
      (''premium'',
        [''Full access to all features'',
         ''Unlimited storage'',
         ''24/7 priority support'',
         ''Early access to new features'',
         ''Exclusive content'',
         ''Personalized recommendations''])]"

definition get_subscription_features :: "'v UserInfo \<Rightarrow> string \<times> 'v UserInfo" where
  "get_subscription_features user =
     (let tier = str_lower (subscription_tier user)
      in case map_of features tier of
           None \<Rightarrow> (''Unknown subscription tier: '' @ subscription_tier user, user)
         | Some fs \<Rightarrow>
             (let feature_list = join ''\<newline>'' (map (\<lambda>f. ''- '' @ f) fs)
              in (''Features for '' @ str_capitalize (subscription_tier user)
                  @ '' tier:\<newline>'' @ feature_list, user)))"

text \<open>
  \<open>update_user_preference\<close>: the item assignment \<open>user.preferences[key] = value\<close> replaces the
  value of a key that is there, in its place, and appends a new key; on \<open>None\<close> it raises.
\<close>

definition update_user_preference ::
  "'v UserInfo \<Rightarrow> string \<Rightarrow> string \<Rightarrow> (error + string) \<times> 'v UserInfo" where
  "update_user_preference user key val =
     (case preferences user of
        None \<Rightarrow>
          (Inl (TypeError (CHR 0x27 # ''NoneType'' @ CHR 0x27
                           # '' object does not support item assignment'')), user)
      | Some d \<Rightarrow>
          (Inr (''Successfully updated preference: '' @ key @ '' = '' @ val),
           user\<lparr>preferences := Some (AList.update key val d)\<rparr>))"

text \<open>The invariant of a \<open>UserInfo\<close> object: neither field is \<open>None\<close>.\<close>

definition user_inv :: "'v UserInfo \<Rightarrow> bool" where
  "user_inv user \<longleftrightarrow> preferences user \<noteq> None \<and> purchase_history user \<noteq> None"


section \<open>Replacement removes what it searches for\<close>

lemma replace_scan_absent:
  "\<not> sublist old s \<Longrightarrow> replace_scan old new s = s"
proof (induction s)
  case Nil
  show ?case by simp
next
  case (Cons c cs)
  from Cons.prems have np: "\<not> prefix old (c # cs)" and ns: "\<not> sublist old cs"
    by (simp_all add: sublist_Cons_right)
  from Cons.IH [OF ns] np show ?case by simp
qed

text \<open>
  A string that does not contain the first character of \<open>new\<close> and starts the result of a
  replacement starts the input too: up to the first replacement the two agree.
\<close>

lemma prefix_replace_scan:
  "new \<noteq> [] \<Longrightarrow> hd new \<notin> set q \<Longrightarrow> prefix q (replace_scan old new s) \<Longrightarrow> prefix q s"
proof (induction s arbitrary: q)
  case Nil
  then show ?case by simp
next
  case (Cons c cs)
  show ?case
  proof (cases "old \<noteq> [] \<and> prefix old (c # cs)")
    case True
    with Cons.prems have pq: "prefix q (new @ replace_scan old new (drop (length old) (c # cs)))"
      by simp
    from Cons.prems(1) obtain b bs where nw: "new = b # bs" by (cases new) auto
    with Cons.prems(2) have "b \<notin> set q" by simp
    with pq nw have "q = []" by (cases q) auto
    then show ?thesis by simp
  next
    case False
    with Cons.prems have pq: "prefix q (c # replace_scan old new cs)" by simp
    show ?thesis
    proof (cases q)
      case Nil
      then show ?thesis by simp
    next
      case (Cons x xs)
      with pq have xc: "x = c" and px: "prefix xs (replace_scan old new cs)" by simp_all
      from Cons Cons.prems(2) have "hd new \<notin> set xs" by simp
      from Cons.IH [OF Cons.prems(1) this px] xc Cons show ?thesis by simp
    qed
  qed
qed

text \<open>
  An occurrence of \<open>p\<close> in \<open>new @ r\<close> lies in \<open>new\<close>, in \<open>r\<close>, or across the seam; across the
  seam it contains the last character of \<open>new\<close>.
\<close>

lemma not_sublist_bracket:
  assumes "new \<noteq> []" and "last new \<notin> set p"
    and "\<not> sublist p new" and "\<not> sublist p r"
  shows "\<not> sublist p (new @ r)"
proof
  assume "sublist p (new @ r)"
  with assms(3,4) obtain xs1 xs2 where p: "p = xs1 @ xs2" and s1: "suffix xs1 new"
    and p2: "prefix xs2 r"
    by (auto simp: sublist_append)
  show False
  proof (cases "xs1 = []")
    case True
    with p p2 have "prefix p r" by simp
    then have "sublist p r" by (rule prefix_imp_sublist)
    with assms(4) show False by simp
  next
    case False
    from s1 obtain zs where "new = zs @ xs1" by (auto simp: suffix_def)
    with False have "last new = last xs1" by simp
    with False p have "last new \<in> set p" by (metis last_in_set Un_iff set_append)
    with assms(2) show False by simp
  qed
qed

text \<open>The same at the other seam: across it, the occurrence contains the first character of \<open>r\<close>.\<close>

lemma not_sublist_tail:
  assumes "r \<noteq> []" and "hd r \<notin> set p"
    and "\<not> sublist p r" and "\<not> sublist p s"
  shows "\<not> sublist p (s @ r)"
proof
  assume "sublist p (s @ r)"
  with assms(3,4) obtain xs1 xs2 where p: "p = xs1 @ xs2" and s1: "suffix xs1 s"
    and p2: "prefix xs2 r"
    by (auto simp: sublist_append)
  show False
  proof (cases "xs2 = []")
    case True
    with p s1 have "suffix p s" by simp
    then have "sublist p s" by (rule suffix_imp_sublist)
    with assms(4) show False by simp
  next
    case False
    from p2 obtain zs where "r = xs2 @ zs" by (auto simp: prefix_def)
    with False have "hd r = hd xs2" by simp
    with False p have "hd r \<in> set p" by (metis hd_in_set Un_iff set_append)
    with assms(2) show False by simp
  qed
qed

lemma replace_scan_preserves:
  "new \<noteq> [] \<Longrightarrow> hd new \<notin> set p \<Longrightarrow> last new \<notin> set p \<Longrightarrow> \<not> sublist p new
     \<Longrightarrow> \<not> sublist p s \<Longrightarrow> \<not> sublist p (replace_scan old new s)"
proof (induction old new s rule: replace_scan.induct)
  case (1 old new)
  then show ?case by simp
next
  case (2 old new c cs)
  from "2.prems"(5) have np: "\<not> prefix p (c # cs)" and ns: "\<not> sublist p cs"
    by (simp_all add: sublist_Cons_right)
  show ?case
  proof (cases "old \<noteq> [] \<and> prefix old (c # cs)")
    case True
    have "sublist (drop (length old) (c # cs)) (c # cs)"
      by (rule suffix_imp_sublist) (rule suffix_drop)
    with "2.prems"(5) have "\<not> sublist p (drop (length old) (c # cs))"
      using sublist_order.order_trans by blast
    from "2.IH"(1) [OF True "2.prems"(1-4) this]
    have "\<not> sublist p (replace_scan old new (drop (length old) (c # cs)))" .
    from not_sublist_bracket [OF "2.prems"(1) "2.prems"(3) "2.prems"(4) this] True
    show ?thesis by simp
  next
    case False
    from "2.IH"(2) [OF False "2.prems"(1-4) ns]
    have r: "\<not> sublist p (replace_scan old new cs)" .
    have "\<not> prefix p (replace_scan old new (c # cs))"
      using prefix_replace_scan [OF "2.prems"(1) "2.prems"(2)] np by blast
    moreover from False have "replace_scan old new (c # cs) = c # replace_scan old new cs"
      by auto
    ultimately show ?thesis using r by (simp only: sublist_Cons_right) simp
  qed
qed

lemma replace_scan_eliminates:
  "old \<noteq> [] \<Longrightarrow> new \<noteq> [] \<Longrightarrow> hd new \<notin> set old \<Longrightarrow> last new \<notin> set old
     \<Longrightarrow> \<not> sublist old new \<Longrightarrow> \<not> sublist old (replace_scan old new s)"
proof (induction old new s rule: replace_scan.induct)
  case (1 old new)
  then show ?case by (cases old) simp_all
next
  case (2 old new c cs)
  show ?case
  proof (cases "prefix old (c # cs)")
    case True
    with "2.prems"(1) have t: "old \<noteq> [] \<and> prefix old (c # cs)" by simp
    from "2.IH"(1) [OF t "2.prems"]
    have "\<not> sublist old (replace_scan old new (drop (length old) (c # cs)))" .
    from not_sublist_bracket [OF "2.prems"(2) "2.prems"(4) "2.prems"(5) this] t
    show ?thesis by simp
  next
    case False
    then have f: "\<not> (old \<noteq> [] \<and> prefix old (c # cs))" by simp
    from "2.IH"(2) [OF f "2.prems"]
    have r: "\<not> sublist old (replace_scan old new cs)" .
    have "\<not> prefix old (replace_scan old new (c # cs))"
      using prefix_replace_scan [OF "2.prems"(2) "2.prems"(3)] False by blast
    moreover from f have "replace_scan old new (c # cs) = c # replace_scan old new cs"
      by auto
    ultimately show ?thesis using r by (simp only: sublist_Cons_right) simp
  qed
qed


section \<open>The four replacements of the input filter\<close>

lemma credit_card_gone:
  "\<not> sublist ''credit card'' (str_replace ''credit card'' ''[PAYMENT METHOD]'' s)"
  unfolding str_replace_def
  using replace_scan_eliminates [of "''credit card''" "''[PAYMENT METHOD]''" s]
  by (simp add: sublist_Cons_right)

lemma ssn_gone:
  "\<not> sublist ''SSN'' (str_replace ''SSN'' ''[REDACTED ID]'' s)"
  unfolding str_replace_def
  using replace_scan_eliminates [of "''SSN''" "''[REDACTED ID]''" s]
  by (simp add: sublist_Cons_right)

lemma password_gone:
  "\<not> sublist ''password'' (str_replace ''password'' ''[CREDENTIALS]'' s)"
  unfolding str_replace_def
  using replace_scan_eliminates [of "''password''" "''[CREDENTIALS]''" s]
  by (simp add: sublist_Cons_right)

lemma account_number_gone:
  "\<not> sublist ''account number'' (str_replace ''account number'' ''[ACCOUNT ID]'' s)"
  unfolding str_replace_def
  using replace_scan_eliminates [of "''account number''" "''[ACCOUNT ID]''" s]
  by (simp add: sublist_Cons_right)

lemma credit_card_kept_out:
  assumes "\<not> sublist ''credit card'' s"
  shows "\<not> sublist ''credit card'' (str_replace ''SSN'' ''[REDACTED ID]'' s)"
    and "\<not> sublist ''credit card'' (str_replace ''password'' ''[CREDENTIALS]'' s)"
    and "\<not> sublist ''credit card'' (str_replace ''account number'' ''[ACCOUNT ID]'' s)"
  unfolding str_replace_def
  using replace_scan_preserves [of "''[REDACTED ID]''" "''credit card''" s "''SSN''"]
    replace_scan_preserves [of "''[CREDENTIALS]''" "''credit card''" s "''password''"]
    replace_scan_preserves [of "''[ACCOUNT ID]''" "''credit card''" s "''account number''"]
    assms
  by (simp_all add: sublist_Cons_right)

lemma ssn_kept_out:
  assumes "\<not> sublist ''SSN'' s"
  shows "\<not> sublist ''SSN'' (str_replace ''password'' ''[CREDENTIALS]'' s)"
    and "\<not> sublist ''SSN'' (str_replace ''account number'' ''[ACCOUNT ID]'' s)"
  unfolding str_replace_def
  using replace_scan_preserves [of "''[CREDENTIALS]''" "''SSN''" s "''password''"]
    replace_scan_preserves [of "''[ACCOUNT ID]''" "''SSN''" s "''account number''"]
    assms
  by (simp_all add: sublist_Cons_right)

lemma password_kept_out:
  assumes "\<not> sublist ''password'' s"
  shows "\<not> sublist ''password'' (str_replace ''account number'' ''[ACCOUNT ID]'' s)"
  unfolding str_replace_def
  using replace_scan_preserves [of "''[ACCOUNT ID]''" "''password''" s "''account number''"]
    assms
  by (simp_all add: sublist_Cons_right)

lemma replaced_text_clean:
  "\<not> sublist ''credit card'' (replaced_text s)"
  "\<not> sublist ''SSN'' (replaced_text s)"
  "\<not> sublist ''password'' (replaced_text s)"
  "\<not> sublist ''account number'' (replaced_text s)"
  unfolding replaced_text_def
  by (intro credit_card_kept_out ssn_kept_out password_kept_out
      credit_card_gone ssn_gone password_gone account_number_gone)+

lemma replaced_text_absent:
  assumes "\<not> mentions_sensitive s"
  shows "replaced_text s = s"
proof -
  have "str_replace old new s = s" if "\<not> sublist old s" for old new :: string
    using that replace_scan_absent [of old s new] by (cases old) (simp_all add: str_replace_def)
  with assms show ?thesis by (simp add: replaced_text_def mentions_sensitive_def)
qed

lemma replaced_text_changes:
  assumes "mentions_sensitive s"
  shows "replaced_text s \<noteq> s"
  using assms replaced_text_clean [of s] by (auto simp: mentions_sensitive_def)

lemma sanitize_unfold:
  "sanitize_sensitive_info s =
     (if mentions_sensitive s then replaced_text s @ redaction_note else s)"
proof (cases "mentions_sensitive s")
  case True
  from replaced_text_changes [OF True] True show ?thesis
    by (simp add: sanitize_sensitive_info_def replaced_text_def Let_def)
next
  case False
  from replaced_text_absent [OF False] False show ?thesis
    by (simp add: sanitize_sensitive_info_def replaced_text_def Let_def)
qed

lemma note_clean:
  "\<not> sublist ''credit card'' redaction_note"
  "\<not> sublist ''SSN'' redaction_note"
  "\<not> sublist ''password'' redaction_note"
  "\<not> sublist ''account number'' redaction_note"
  by (simp_all add: redaction_note_def sublist_Cons_right)

lemma sanitize_clean:
  "\<not> sublist ''credit card'' (sanitize_sensitive_info s)"
  "\<not> sublist ''SSN'' (sanitize_sensitive_info s)"
  "\<not> sublist ''password'' (sanitize_sensitive_info s)"
  "\<not> sublist ''account number'' (sanitize_sensitive_info s)"
proof -
  have nl: "redaction_note \<noteq> []" "hd redaction_note = CHR 0x0A"
    by (simp_all add: redaction_note_def)
  show "\<not> sublist ''credit card'' (sanitize_sensitive_info s)"
    using not_sublist_tail [OF nl(1) _ note_clean(1) replaced_text_clean(1) [of s]] nl(2)
    by (auto simp: sanitize_unfold mentions_sensitive_def)
  show "\<not> sublist ''SSN'' (sanitize_sensitive_info s)"
    using not_sublist_tail [OF nl(1) _ note_clean(2) replaced_text_clean(2) [of s]] nl(2)
    by (auto simp: sanitize_unfold mentions_sensitive_def)
  show "\<not> sublist ''password'' (sanitize_sensitive_info s)"
    using not_sublist_tail [OF nl(1) _ note_clean(3) replaced_text_clean(3) [of s]] nl(2)
    by (auto simp: sanitize_unfold mentions_sensitive_def)
  show "\<not> sublist ''account number'' (sanitize_sensitive_info s)"
    using not_sublist_tail [OF nl(1) _ note_clean(4) replaced_text_clean(4) [of s]] nl(2)
    by (auto simp: sanitize_unfold mentions_sensitive_def)
qed


section \<open>Claims about the input filter\<close>

text \<open>
  C1, as stated: the result of \<open>sanitize_sensitive_info\<close> ends with the note if and only if
  one of the four substrings occurred in the input. This fails for an input that carries
  the note's text itself and none of the four substrings: nothing is replaced, nothing is
  appended, and the result, which is the input, ends with the note.
\<close>

theorem sanitize_note_suffix_counterexample:
  "sanitize_sensitive_info redaction_note = redaction_note \<and>
   suffix redaction_note (sanitize_sensitive_info redaction_note) \<and>
   suffix ''[Note: Some sensitive information has been redacted for security purposes.]''
     (sanitize_sensitive_info redaction_note) \<and>
   \<not> mentions_sensitive redaction_note"
proof -
  have m: "\<not> mentions_sensitive redaction_note"
    using note_clean by (simp add: mentions_sensitive_def)
  have "suffix ''[Note: Some sensitive information has been redacted for security purposes.]''
     redaction_note"
    unfolding redaction_note_def suffix_def by simp
  with m show ?thesis by (simp add: sanitize_unfold)
qed

text \<open>
  C1, amended: for every input the result contains none of the four substrings; when one
  of them occurred in the input, the result is the text after the four replacements
  followed by the note, and when none occurred the result is the input itself.
\<close>

theorem sanitize_sensitive_info_redacts:
  "\<not> sublist ''credit card'' (sanitize_sensitive_info s) \<and>
   \<not> sublist ''SSN'' (sanitize_sensitive_info s) \<and>
   \<not> sublist ''password'' (sanitize_sensitive_info s) \<and>
   \<not> sublist ''account number'' (sanitize_sensitive_info s) \<and>
   (if mentions_sensitive s
    then sanitize_sensitive_info s = replaced_text s @ redaction_note
    else sanitize_sensitive_info s = s)"
  using sanitize_clean [of s] by (simp add: sanitize_unfold)

theorem sanitize_sensitive_info_redacts_witness:
  "mentions_sensitive ''my password'' \<and>
   sanitize_sensitive_info ''my password'' = ''my [CREDENTIALS]'' @ redaction_note \<and>
   \<not> mentions_sensitive ''hello'' \<and>
   sanitize_sensitive_info ''hello'' = ''hello''"
  using sanitize_sensitive_info_redacts [of "''my password''"]
    sanitize_sensitive_info_redacts [of "''hello''"]
  by (simp add: mentions_sensitive_def replaced_text_def str_replace_def sublist_Cons_right)

text \<open>
  C8: \<open>sanitize_sensitive_info\<close> is idempotent. Its result contains none of the four
  substrings, so a second application replaces nothing and appends no second note.
\<close>

theorem sanitize_sensitive_info_idempotent:
  "sanitize_sensitive_info (sanitize_sensitive_info s) = sanitize_sensitive_info s"
proof -
  have "\<not> mentions_sensitive (sanitize_sensitive_info s)"
    using sanitize_clean [of s] by (simp add: mentions_sensitive_def)
  then show ?thesis by (subst sanitize_unfold) simp
qed


section \<open>Claims about the guardrails, the API key and the weather tools\<close>

text \<open>
  C2: each guardrail function returns a \<open>GuardrailFunctionOutput\<close> whose
  \<open>tripwire_triggered\<close> is the detector's flag (\<open>is_math_homework\<close>, \<open>is_math\<close>), and in both
  branches \<open>output_info\<close> is the detector's result, unchanged; the detector's run is a
  parameter.
\<close>

theorem guardrail_tripwire_follows_flag:
  "tripwire_triggered (math_homework_guardrail str_items detect_hw input_data)
     = is_math_homework (output_info (math_homework_guardrail str_items detect_hw input_data)) \<and>
   output_info (math_homework_guardrail str_items detect_hw input_data)
     = detect_hw (case input_data of InputStr s \<Rightarrow> s | InputList xs \<Rightarrow> str_items xs) \<and>
   tripwire_triggered (math_solution_guardrail detect_math output)
     = is_math (detect_math (response output)) \<and>
   output_info (math_solution_guardrail detect_math output) = detect_math (response output)"
  by (simp add: math_homework_guardrail_def math_solution_guardrail_def Let_def)

text \<open>
  C3: when \<open>os.getenv("GEMINI_API_KEY")\<close> gives \<open>None\<close> or the empty string, the module raises
  the \<open>ValueError\<close> with the message below and has constructed no object; with a non-empty
  value no exception ends the initialisation, and the client, the model and the run
  configuration are constructed.
\<close>

theorem gemini_api_key_checked_first:
  "gemini_module_init None =
     ([], Some (ValueError
        ''GEMINI_API_KEY is not set. Please ensure it is defined in your .env file.'')) \<and>
   gemini_module_init (Some '''') =
     ([], Some (ValueError
        ''GEMINI_API_KEY is not set. Please ensure it is defined in your .env file.'')) \<and>
   (k \<noteq> '''' \<longrightarrow> snd (gemini_module_init (Some k)) = None \<and>
      length (fst (gemini_module_init (Some k))) = 3)"
  by (simp add: gemini_module_init_def Let_def)

theorem gemini_api_key_checked_first_witness:
  "''abc'' \<noteq> '''' \<and> snd (gemini_module_init (Some ''abc'')) = None \<and>
   length (fst (gemini_module_init (Some ''abc''))) = 3"
  using gemini_api_key_checked_first [of "''abc''"] by simp

text \<open>
  C4: for every city \<open>X\<close> and every draw of the random generator, the \<open>get_weather\<close> of the
  voice agent returns one of the four strings "The weather in X is sunny.", "... cloudy.",
  "... rainy.", "... snowy." (and does not raise), and the \<open>get_weather\<close> of
  03\_basicconfig.py returns "The weather in X is sunny".
\<close>

theorem get_weather_fixed_strings:
  "snd (get_weather_voice r X) \<in>
     {Inr (''The weather in '' @ X @ '' is sunny.''),
      Inr (''The weather in '' @ X @ '' is cloudy.''),
      Inr (''The weather in '' @ X @ '' is rainy.''),
      Inr (''The weather in '' @ X @ '' is snowy.'')} \<and>
   get_weather X = ''The weather in '' @ X @ '' is sunny''"
proof -
  have "r mod 4 = 0 \<or> r mod 4 = 1 \<or> r mod 4 = 2 \<or> r mod 4 = 3" by arith
  then show ?thesis
    by (auto simp: get_weather_voice_def random_choice_def get_weather_def)
qed

text \<open>
  C5, as stated: two invocations of \<open>get_weather\<close> on equal inputs return equal results. For
  the \<open>get_weather\<close> of 26\_basicvoiceagent.py, which the claim names, this fails: on the same
  city, two draws of \<open>random.choice\<close> give two different results.
\<close>

theorem get_weather_voice_not_deterministic:
  "snd (get_weather_voice 0 ''Paris'') = Inr ''The weather in Paris is sunny.'' \<and>
   snd (get_weather_voice 1 ''Paris'') = Inr ''The weather in Paris is cloudy.'' \<and>
   snd (get_weather_voice 0 ''Paris'') \<noteq> snd (get_weather_voice 1 ''Paris'')"
  by (simp add: get_weather_voice_def random_choice_def)

text \<open>
  C5, amended: \<open>sanitize_sensitive_info\<close> and the \<open>get_weather\<close> of 03\_basicconfig.py read
  nothing but their argument (they are the functions \<^const>\<open>sanitize_sensitive_info\<close> and
  \<^const>\<open>get_weather\<close> of one argument). The \<open>get_weather\<close> of 26\_basicvoiceagent.py also reads
  the random generator: on the same city, two invocations return equal results exactly
  when \<open>random.choice\<close> picks the same of the four conditions; the line it prints depends
  on the city alone.
\<close>

theorem get_weather_voice_depends_on_draw:
  "(snd (get_weather_voice r1 city) = snd (get_weather_voice r2 city)
      \<longleftrightarrow> r1 mod 4 = r2 mod 4) \<and>
   fst (get_weather_voice r1 city) = fst (get_weather_voice r2 city)"
proof -
  have a: "r1 mod 4 = 0 \<or> r1 mod 4 = 1 \<or> r1 mod 4 = 2 \<or> r1 mod 4 = 3" by arith
  have b: "r2 mod 4 = 0 \<or> r2 mod 4 = 1 \<or> r2 mod 4 = 2 \<or> r2 mod 4 = 3" by arith
  from a b show ?thesis
    by (auto simp: get_weather_voice_def random_choice_def)
qed


section \<open>Subscription features\<close>

lemma upper_lower_char: "upper_char (lower_char c) = upper_char c"
proof (cases "65 \<le> (of_char c :: nat) \<and> (of_char c :: nat) \<le> 90")
  case True
  then have "(of_char c + 32 :: nat) mod 256 = of_char c + 32" by simp
  with True show ?thesis
    by (simp add: upper_char_def lower_char_def Let_def)
next
  case False
  then show ?thesis by (simp add: upper_char_def lower_char_def Let_def)
qed

text \<open>What \<open>capitalize\<close> gives is determined by what \<open>lower\<close> gives.\<close>

lemma capitalize_of_lower:
  assumes "str_lower t = x # xs"
  shows "str_capitalize t = upper_char x # xs"
proof -
  from assms obtain c cs where t: "t = c # cs" and x: "lower_char c = x"
    and xs: "map lower_char cs = xs"
    by (cases t) (auto simp: str_lower_def)
  from x have "upper_char c = upper_char x" using upper_lower_char [of c] by simp
  with t xs show ?thesis by simp
qed

lemma upper_letters:
  "upper_char CHR ''f'' = CHR ''F''" "upper_char CHR ''b'' = CHR ''B''"
  "upper_char CHR ''p'' = CHR ''P''"
  by code_simp+

lemma features_lookup:
  "map_of features ''free'' = Some [''Basic access to platform'', ''Limited storage (5GB)'',
      ''Standard support'', ''Access to community forums'']"
  "map_of features ''basic'' = Some [''Full access to platform'', ''Increased storage (50GB)'',
      ''Priority email support'', ''No advertisements'', ''Monthly newsletter'']"
  "map_of features ''premium'' = Some [''Full access to all features'', ''Unlimited storage'',
      ''24/7 priority support'', ''Early access to new features'', ''Exclusive content'',
      ''Personalized recommendations'']"
  by (simp_all add: features_def)

lemma features_unknown:
  "t \<noteq> ''free'' \<Longrightarrow> t \<noteq> ''basic'' \<Longrightarrow> t \<noteq> ''premium'' \<Longrightarrow> map_of features t = None"
  by (simp add: features_def)

text \<open>
  C6: when the lowercased tier is "free", "basic" or "premium", \<open>get_subscription_features\<close>
  returns the header "Features for Free tier:" (respectively Basic, Premium: the tier
  capitalized) and under it the tier's canned features, 4, 5 and 6 of them, one per line
  and each behind "- "; for every other tier it returns "Unknown subscription tier: "
  followed by the tier as it is stored.
\<close>

theorem get_subscription_features_by_tier:
  "(str_lower (subscription_tier user) = ''free'' \<longrightarrow>
      fst (get_subscription_features user) =
        ''Features for Free tier:\<newline>'' @ join ''\<newline>'' (map (\<lambda>f. ''- '' @ f)
          [''Basic access to platform'', ''Limited storage (5GB)'', ''Standard support'',
           ''Access to community forums''])) \<and>
   (str_lower (subscription_tier user) = ''basic'' \<longrightarrow>
      fst (get_subscription_features user) =
        ''Features for Basic tier:\<newline>'' @ join ''\<newline>'' (map (\<lambda>f. ''- '' @ f)
          [''Full access to platform'', ''Increased storage (50GB)'', ''Priority email support'',
           ''No advertisements'', ''Monthly newsletter''])) \<and>
   (str_lower (subscription_tier user) = ''premium'' \<longrightarrow>
      fst (get_subscription_features user) =
        ''Features for Premium tier:\<newline>'' @ join ''\<newline>'' (map (\<lambda>f. ''- '' @ f)
          [''Full access to all features'', ''Unlimited storage'', ''24/7 priority support'',
           ''Early access to new features'', ''Exclusive content'',
           ''Personalized recommendations''])) \<and>
   (str_lower (subscription_tier user) \<noteq> ''free'' \<and>
    str_lower (subscription_tier user) \<noteq> ''basic'' \<and>
    str_lower (subscription_tier user) \<noteq> ''premium'' \<longrightarrow>
      fst (get_subscription_features user) =
        ''Unknown subscription tier: '' @ subscription_tier user) \<and>
   map (\<lambda>(t, fs). (t, length fs)) features = [(''free'', 4), (''basic'', 5), (''premium'', 6)]"
proof (intro conjI impI)
  assume a: "str_lower (subscription_tier user) = ''free''"
  from capitalize_of_lower [OF a] have "str_capitalize (subscription_tier user) = ''Free''"
    by (simp add: upper_letters)
  with a show "fst (get_subscription_features user) =
        ''Features for Free tier:\<newline>'' @ join ''\<newline>'' (map (\<lambda>f. ''- '' @ f)
          [''Basic access to platform'', ''Limited storage (5GB)'', ''Standard support'',
           ''Access to community forums''])"
    by (simp add: get_subscription_features_def features_lookup Let_def)
next
  assume a: "str_lower (subscription_tier user) = ''basic''"
  from capitalize_of_lower [OF a] have "str_capitalize (subscription_tier user) = ''Basic''"
    by (simp add: upper_letters)
  with a show "fst (get_subscription_features user) =
        ''Features for Basic tier:\<newline>'' @ join ''\<newline>'' (map (\<lambda>f. ''- '' @ f)
          [''Full access to platform'', ''Increased storage (50GB)'', ''Priority email support'',
           ''No advertisements'', ''Monthly newsletter''])"
    by (simp add: get_subscription_features_def features_lookup Let_def)
next
  assume a: "str_lower (subscription_tier user) = ''premium''"
  from capitalize_of_lower [OF a] have "str_capitalize (subscription_tier user) = ''Premium''"
    by (simp add: upper_letters)
  with a show "fst (get_subscription_features user) =
        ''Features for Premium tier:\<newline>'' @ join ''\<newline>'' (map (\<lambda>f. ''- '' @ f)
          [''Full access to all features'', ''Unlimited storage'', ''24/7 priority support'',
           ''Early access to new features'', ''Exclusive content'',
           ''Personalized recommendations''])"
    by (simp add: get_subscription_features_def features_lookup Let_def)
next
  assume "str_lower (subscription_tier user) \<noteq> ''free'' \<and>
    str_lower (subscription_tier user) \<noteq> ''basic'' \<and>
    str_lower (subscription_tier user) \<noteq> ''premium''"
  then have "map_of features (str_lower (subscription_tier user)) = None"
    by (intro features_unknown) simp_all
  then show "fst (get_subscription_features user) =
        ''Unknown subscription tier: '' @ subscription_tier user"
    by (simp add: get_subscription_features_def Let_def)
next
  show "map (\<lambda>(t, fs). (t, length fs)) features
          = [(''free'', 4), (''basic'', 5), (''premium'', 6)]"
    by (simp add: features_def)
qed

theorem get_subscription_features_by_tier_witness:
  "str_lower ''FREE'' = ''free'' \<and>
   fst (get_subscription_features
     \<lparr>user_name = ''Bob Smith'', uid = 1, email = Some ''bob@example.com'',
      subscription_tier = ''FREE'', preferences = Some [],
      purchase_history = Some ([] :: (string \<times> string) list list)\<rparr>) =
     ''Features for Free tier:\<newline>- Basic access to platform\<newline>- Limited storage (5GB)\<newline>- Standard support\<newline>- Access to community forums'' \<and>
   str_lower ''Basic'' = ''basic'' \<and>
   fst (get_subscription_features
     \<lparr>user_name = ''Carol Johnson'', uid = 2, email = Some ''carol@example.com'',
      subscription_tier = ''Basic'', preferences = Some [],
      purchase_history = Some ([] :: (string \<times> string) list list)\<rparr>) =
     ''Features for Basic tier:\<newline>- Full access to platform\<newline>- Increased storage (50GB)\<newline>- Priority email support\<newline>- No advertisements\<newline>- Monthly newsletter'' \<and>
   str_lower ''premium'' = ''premium'' \<and>
   fst (get_subscription_features
     \<lparr>user_name = ''David Chen'', uid = 3, email = Some ''david@example.com'',
      subscription_tier = ''premium'', preferences = Some [],
      purchase_history = Some ([] :: (string \<times> string) list list)\<rparr>) =
     ''Features for Premium tier:\<newline>- Full access to all features\<newline>- Unlimited storage\<newline>- 24/7 priority support\<newline>- Early access to new features\<newline>- Exclusive content\<newline>- Personalized recommendations'' \<and>
   str_lower ''Gold'' = ''gold'' \<and>
   fst (get_subscription_features
     \<lparr>user_name = ''Eve'', uid = 4, email = None,
      subscription_tier = ''Gold'', preferences = Some [],
      purchase_history = Some ([] :: (string \<times> string) list list)\<rparr>) =
     ''Unknown subscription tier: Gold''"
proof -
  have l: "str_lower ''FREE'' = ''free''" "str_lower ''Basic'' = ''basic''"
    "str_lower ''premium'' = ''premium''" "str_lower ''Gold'' = ''gold''"
    by code_simp+
  show ?thesis
    using l
      get_subscription_features_by_tier [of "\<lparr>user_name = ''Bob Smith'', uid = 1,
        email = Some ''bob@example.com'', subscription_tier = ''FREE'', preferences = Some [],
        purchase_history = Some ([] :: (string \<times> string) list list)\<rparr>"]
      get_subscription_features_by_tier [of "\<lparr>user_name = ''Carol Johnson'', uid = 2,
        email = Some ''carol@example.com'', subscription_tier = ''Basic'', preferences = Some [],
        purchase_history = Some ([] :: (string \<times> string) list list)\<rparr>"]
      get_subscription_features_by_tier [of "\<lparr>user_name = ''David Chen'', uid = 3,
        email = Some ''david@example.com'', subscription_tier = ''premium'',
        preferences = Some [],
        purchase_history = Some ([] :: (string \<times> string) list list)\<rparr>"]
      get_subscription_features_by_tier [of "\<lparr>user_name = ''Eve'', uid = 4,
        email = None, subscription_tier = ''Gold'', preferences = Some [],
        purchase_history = Some ([] :: (string \<times> string) list list)\<rparr>"]
    by simp
qed


section \<open>Dynamic instructions\<close>

lemma dynamic_instructions_parts:
  "dynamic_instructions user =
     base_text user
     @ (if experience_level user = ''beginner'' then beginner_paragraph
        else if experience_level user = ''intermediate'' then intermediate_paragraph
        else if experience_level user = ''expert'' then expert_paragraph
        else [])
     @ (if language user \<noteq> ''English'' then language_addendum (language user) else [])"
  by (simp add: dynamic_instructions_def Let_def)

lemma base_text_embeds:
  "sublist (name user) (base_text user)"
  "sublist (language user) (base_text user)"
  "sublist (experience_level user) (base_text user)"
  "sublist (join '', '' (interests user)) (base_text user)"
  unfolding base_text_def sublist_def
  by (metis append.assoc)+

lemma dynamic_instructions_embeds:
  "sublist (name user) (dynamic_instructions user)"
  "sublist (language user) (dynamic_instructions user)"
  "sublist (experience_level user) (dynamic_instructions user)"
  "sublist (join '', '' (interests user)) (dynamic_instructions user)"
  using base_text_embeds [of user]
  by (simp_all only: dynamic_instructions_parts sublist_append) simp_all

text \<open>
  C7, as stated: the result contains the beginner paragraph exactly when
  \<open>experience_level\<close> is "beginner". The result embeds the user's name as it is, so for an
  expert whose name is the text of the beginner paragraph the result contains that
  paragraph, and the experience level is not "beginner".
\<close>

theorem dynamic_instructions_paragraph_counterexample:
  "sublist beginner_paragraph
     (dynamic_instructions \<lparr>name = beginner_paragraph, language = ''English'', interests = [],
        experience_level = ''expert''\<rparr>) \<and>
   experience_level \<lparr>name = beginner_paragraph, language = ''English'', interests = [],
        experience_level = ''expert''\<rparr> \<noteq> ''beginner''"
  using dynamic_instructions_embeds(1)
    [of "\<lparr>name = beginner_paragraph, language = ''English'', interests = [],
        experience_level = ''expert''\<rparr>"]
  by simp

text \<open>
  C7, amended: the result always embeds the user's name, language, experience level and
  comma-joined interests; it is the base text, followed by the beginner, intermediate or
  expert paragraph exactly when \<open>experience_level\<close> is "beginner", "intermediate" or "expert"
  (by none of the three for any other value), followed by the "Respond in ... when
  possible." addendum if and only if \<open>language\<close> is not "English".
\<close>

theorem dynamic_instructions_composition:
  "sublist (name user) (dynamic_instructions user) \<and>
   sublist (language user) (dynamic_instructions user) \<and>
   sublist (experience_level user) (dynamic_instructions user) \<and>
   sublist (join '', '' (interests user)) (dynamic_instructions user) \<and>
   dynamic_instructions user =
     base_text user
     @ (if experience_level user = ''beginner'' then beginner_paragraph
        else if experience_level user = ''intermediate'' then intermediate_paragraph
        else if experience_level user = ''expert'' then expert_paragraph
        else [])
     @ (if language user \<noteq> ''English'' then language_addendum (language user) else [])"
  using dynamic_instructions_embeds [of user] dynamic_instructions_parts [of user]
  by blast


section \<open>The context object and its tools\<close>

lemma post_init_inv: "user_inv (post_init u)"
  by (simp add: user_inv_def post_init_def Let_def)

lemma init_inv: "user_inv (UserInfo_init n i e t p h)"
  unfolding UserInfo_init_def by (rule post_init_inv)

lemma init_defaults:
  "preferences (UserInfo_init n i e t None h) = Some []"
  "purchase_history (UserInfo_init n i e t p None) = Some []"
  by (simp_all add: UserInfo_init_def post_init_def Let_def)

text \<open>The four tools that only read leave the context object as it is.\<close>

lemma read_only_tools:
  "snd (fetch_user_profile user) = user"
  "snd (fetch_user_preferences user) = user"
  "snd (fetch_purchase_history fmt user) = user"
  "snd (get_subscription_features user) = user"
proof -
  show "snd (fetch_user_profile user) = user" by (simp add: fetch_user_profile_def)
  show "snd (fetch_user_preferences user) = user"
    by (simp add: fetch_user_preferences_def Let_def split: option.splits)
  show "snd (fetch_purchase_history fmt user) = user"
    by (simp add: fetch_purchase_history_def Let_def split: option.splits)
  show "snd (get_subscription_features user) = user"
    by (simp add: get_subscription_features_def Let_def split: option.splits)
qed

lemma update_inv:
  "user_inv user \<Longrightarrow> user_inv (snd (update_user_preference user key val))"
  by (simp add: update_user_preference_def user_inv_def split: option.splits)

text \<open>
  C9: a \<open>UserInfo\<close> object satisfies the invariant from its construction on, whatever the
  arguments: \<open>__post_init__\<close> has replaced a \<open>None\<close> by the empty dictionary and the empty
  list; and each of the five tools leaves an object that satisfies the invariant
  satisfying it.
\<close>

theorem userinfo_invariant:
  "user_inv (UserInfo_init n i e t p h) \<and>
   preferences (UserInfo_init n i e t None h) = Some [] \<and>
   purchase_history (UserInfo_init n i e t p None) = Some [] \<and>
   (user_inv user \<longrightarrow>
      user_inv (snd (fetch_user_profile user)) \<and>
      user_inv (snd (fetch_user_preferences user)) \<and>
      user_inv (snd (fetch_purchase_history fmt user)) \<and>
      user_inv (snd (get_subscription_features user)) \<and>
      user_inv (snd (update_user_preference user key val)))"
  using init_inv [of n i e t p h] update_inv [of user key val]
  by (simp add: read_only_tools init_defaults)

theorem userinfo_invariant_witness:
  "user_inv (UserInfo_init ''Bob'' 1 None None None (None :: (string \<times> string) list list option)) \<and>
   user_inv (snd (update_user_preference
      (UserInfo_init ''Bob'' 1 None None None (None :: (string \<times> string) list list option))
      ''theme'' ''dark'')) \<and>
   user_inv (snd (fetch_user_preferences
      (UserInfo_init ''Bob'' 1 None None None (None :: (string \<times> string) list list option))))"
  using userinfo_invariant [of "''Bob''" 1 None None None
      "None :: (string \<times> string) list list option"
      "UserInfo_init ''Bob'' 1 None None None (None :: (string \<times> string) list list option)"
      id "''theme''" "''dark''"]
  by blast

text \<open>
  C10: on a \<open>UserInfo\<close> object (one that satisfies the invariant of C9),
  \<open>update_user_preference\<close> returns "Successfully updated preference: key = value"; afterwards
  the preferences give the value for the key and, for every other key, what they gave
  before; and the name, uid, email, subscription tier and purchase history are unchanged.
\<close>

theorem update_user_preference_frame:
  "user_inv user \<longrightarrow>
     (\<exists>d d'. preferences user = Some d \<and>
        preferences (snd (update_user_preference user key val)) = Some d' \<and>
        map_of d' key = Some val \<and>
        (\<forall>k. k \<noteq> key \<longrightarrow> map_of d' k = map_of d k)) \<and>
     fst (update_user_preference user key val) =
       Inr (''Successfully updated preference: '' @ key @ '' = '' @ val) \<and>
     user_name (snd (update_user_preference user key val)) = user_name user \<and>
     uid (snd (update_user_preference user key val)) = uid user \<and>
     email (snd (update_user_preference user key val)) = email user \<and>
     subscription_tier (snd (update_user_preference user key val)) = subscription_tier user \<and>
     purchase_history (snd (update_user_preference user key val)) = purchase_history user"
  by (auto simp: update_user_preference_def user_inv_def update_conv')

theorem update_user_preference_frame_witness:
  "user_inv (UserInfo_init ''Bob'' 1 None None (Some [(''theme'', ''light''), (''lang'', ''en'')])
      (None :: (string \<times> string) list list option)) \<and>
   update_user_preference
     (UserInfo_init ''Bob'' 1 None None (Some [(''theme'', ''light''), (''lang'', ''en'')])
        (None :: (string \<times> string) list list option)) ''theme'' ''dark'' =
     (Inr ''Successfully updated preference: theme = dark'',
      \<lparr>user_name = ''Bob'', uid = 1, email = None, subscription_tier = ''free'',
       preferences = Some [(''theme'', ''dark''), (''lang'', ''en'')],
       purchase_history = Some []\<rparr>)"
  using update_user_preference_frame
    [of "UserInfo_init ''Bob'' 1 None None (Some [(''theme'', ''light''), (''lang'', ''en'')])
      (None :: (string \<times> string) list list option)" "''theme''" "''dark''"]
  by (simp add: UserInfo_init_def post_init_def update_user_preference_def user_inv_def Let_def)

end
